theory Spec2Isabelle
  imports Complex_Main
begin

section \<open>Numbers and exceptions\<close>

text \<open>
  Step numbers and intervals are Python integers, modelled as \<^typ>\<open>int\<close>. The simulation
  clock, the step sizes and the error magnitudes are Python floats, that is IEEE 754
  binary64 numbers. A finite float is the real number it denotes, so these quantities have
  type \<^typ>\<open>real\<close>; comparisons of finite floats are the comparisons of the reals. The
  arithmetic operations that the sources apply to the clock (\<open>+\<close>, \<open>-\<close>, \<open>/\<close>) are the
  rounding operations \<open>fadd\<close>, \<open>fsub\<close> and \<open>fdiv\<close> defined below. Infinities and NaN
  are outside this model.

  Exceptions are values. Only the exceptions that the modelled code can raise by itself
  appear: \<open>ValueError\<close> (raised by \<open>euler_flow_stepper\<close>, and by \<open>np.max\<close> and
  \<open>max\<close> on an empty sequence) and \<open>ZeroDivisionError\<close> (float division by zero).
\<close>

datatype py_error = ValueError string | ZeroDivisionError

text \<open>\<open>np.max(xs)\<close> and \<open>max(xs)\<close> on a sequence of numbers: an empty sequence raises.\<close>

fun np_max :: "real list \<Rightarrow> py_error + real" where
  "np_max [] = Inl (ValueError ''zero-size array to reduction operation maximum which has no identity'')"
| "np_max (x # xs) = Inr (fold max xs x)"

section \<open>Python floats\<close>

text \<open>
  A binary64 number is \<open>m * 2 ^ e\<close> with \<open>\<bar>m\<bar> < 2 ^ 53\<close> and \<open>- 1074 \<le> e \<le> 971\<close>.
  Around a real \<open>x\<close> with \<open>2 ^ k \<le> \<bar>x\<bar> < 2 ^ (k + 1)\<close> the floats are the multiples of
  \<open>2 ^ (k - 52)\<close>, and below \<open>2 ^ (- 1022)\<close> (the subnormal range) the multiples of
  \<open>2 ^ (- 1074)\<close>: this spacing is \<open>ulp x\<close>.
\<close>

definition ulp :: "real \<Rightarrow> real" where
  "ulp x = (if x = 0 then 2 powi (- 1074) else 2 powi (max (\<lfloor>log 2 \<bar>x\<bar>\<rfloor> - 52) (- 1074)))"

text \<open>Rounding a real to the nearest integer, a tie going to the even one.\<close>

definition round_half_even :: "real \<Rightarrow> int" where
  "round_half_even q =
     (let f = \<lfloor>q\<rfloor>
      in if q - of_int f < 1/2 then f
         else if q - of_int f > 1/2 then f + 1
         else if even f then f else f + 1)"

text \<open>
  \<open>rnd x\<close> is the float nearest to \<open>x\<close>, a tie going to the float with the even
  significand (the default rounding of IEEE 754, which Python uses). The greatest finite
  float is \<open>max_double\<close>; where the rounded value is beyond it, Python's result is an
  infinity, which this model does not have: there \<open>rnd\<close> goes on with the rounded real.
\<close>

definition rnd :: "real \<Rightarrow> real" where
  "rnd x = of_int (round_half_even (x / ulp x)) * ulp x"

definition max_double :: real where
  "max_double = (2 ^ 53 - 1) * 2 ^ 971"

text \<open>
  Python's \<open>x + y\<close>, \<open>x - y\<close> and \<open>x / y\<close> on floats: the exact result, rounded.
  (\<open>x / y\<close> raises \<open>ZeroDivisionError\<close> when \<open>y\<close> is zero; the caller models that.)
\<close>

definition fadd :: "real \<Rightarrow> real \<Rightarrow> real" where
  "fadd x y = rnd (x + y)"

definition fsub :: "real \<Rightarrow> real \<Rightarrow> real" where
  "fsub x y = rnd (x - y)"

definition fdiv :: "real \<Rightarrow> real \<Rightarrow> real" where
  "fdiv x y = rnd (x / y)"

text \<open>The floats that Python reads for the literals \<open>0.03\<close> and \<open>0.3\<close>.\<close>

definition double_0_03 :: real where
  "double_0_03 = 1080863910568919 / 2 ^ 55"

definition double_0_3 :: real where
  "double_0_3 = 5404319552844595 / 2 ^ 54"

section \<open>simutil.py\<close>

subsection \<open>\<open>check_step\<close>\<close>

text \<open>
  \<^verbatim>\<open>
  def check_step(step, interval):
      if interval == 0:
          return True
      elif interval < 0:
          return False
      elif step % interval == 0:
          return True
      return False
  \<close>
  Python's \<open>%\<close> takes the sign of the divisor, as \<open>mod\<close> on \<^typ>\<open>int\<close> does.
\<close>

definition check_step :: "int \<Rightarrow> int \<Rightarrow> bool" where
  "check_step step interval =
     (if interval = 0 then True
      else if interval < 0 then False
      else if step mod interval = 0 then True
      else False)"

subsection \<open>\<open>inviscid_sim_timestep\<close>\<close>

text \<open>
  \<^verbatim>\<open>
  def inviscid_sim_timestep(discr, state, t, dt, cfl, eos,
                            t_final, constant_cfl=False):
      mydt = dt
      if constant_cfl is True:
          mydt = get_inviscid_timestep(discr=discr, q=state,
                                       cfl=cfl, eos=eos)
      if (t + mydt) > t_final:
          mydt = t_final - t
      return mydt
  \<close>
  \<open>get_inviscid_timestep\<close> is imported from \<open>mirgecom.euler\<close>; it is the first parameter of
  the model. The discretization, the state and the equation of state are opaque values.
  \<open>t + mydt\<close> and \<open>t_final - t\<close> are float operations.
\<close>

definition inviscid_sim_timestep ::
  "('d \<Rightarrow> 'q \<Rightarrow> real \<Rightarrow> 'e \<Rightarrow> real) \<Rightarrow> 'd \<Rightarrow> 'q \<Rightarrow> real \<Rightarrow> real \<Rightarrow> real \<Rightarrow> 'e \<Rightarrow> real \<Rightarrow> bool \<Rightarrow> real"
where
  "inviscid_sim_timestep get_inviscid_timestep discr state t dt cfl eos t_final constant_cfl =
     (let mydt = dt;
          mydt = (if constant_cfl then get_inviscid_timestep discr state cfl eos else mydt);
          mydt = (if fadd t mydt > t_final then fsub t_final t else mydt)
      in mydt)"

subsection \<open>\<open>sim_checkpoint\<close>\<close>

text \<open>
  \<open>sim_checkpoint\<close> works on array aggregates (the state \<open>q\<close>, the dependent variables
  \<open>dv\<close>, the expected state and the residual); they are values of one opaque type \<open>'a\<close>.
  What the function does to the outside is recorded, in order, as a list of events: the
  evaluation of the equation of state and of the exact solution, the lines handed to the
  logger, and the visualization dump.
\<close>

datatype 'a event =
    Eos_call 'a
  | Exact_soln_call real
  | Logger_info string
  | Logger_error string
  | Output_dump string "(string \<times> 'a) list" "nat option" int real

text \<open>
  The functions \<open>sim_checkpoint\<close> imports from \<open>mirgecom.io\<close> and \<open>mirgecom.checkstate\<close>, the
  subtraction of the array library and the formatting of the error array inside the
  f-string are parameters of the model.
\<close>

record 'a simutil_imports =
  make_io_fields :: "nat \<Rightarrow> 'a \<Rightarrow> 'a \<Rightarrow> (string \<times> 'a) list"
  make_status_message :: "real \<Rightarrow> int \<Rightarrow> real \<Rightarrow> real \<Rightarrow> 'a \<Rightarrow> string"
  compare_states :: "'a \<Rightarrow> 'a \<Rightarrow> real list"
  format_errors :: "real list \<Rightarrow> string"
  array_sub :: "'a \<Rightarrow> 'a \<Rightarrow> 'a"

text \<open>
  \<^verbatim>\<open>
  def sim_checkpoint(discr, visualizer, eos, logger, q, vizname, exact_soln=None,
                     step=0, t=0, dt=0, cfl=1.0, nstatus=-1, nviz=-1, exittol=1e-16,
                     constant_cfl=False, comm=None):
      do_viz = check_step(step=step, interval=nviz)
      do_status = check_step(step=step, interval=nstatus)
      if do_viz is False and do_status is False:
          return 0

      actx = q[0].array_context
      nodes = thaw(actx, discr.nodes())
      rank = 0

      if comm is not None:
          rank = comm.Get_rank()
      checkpoint_status = 0

      dv = eos(q=q)

      have_exact = False

      if ((do_status is True or do_viz is True) and exact_soln is not None):
          have_exact = True
          expected_state = exact_soln(t=t, x_vec=nodes, eos=eos)

      if do_status is True:
          statusmesg = make_status_message(t=t, step=step, dt=dt,
                                           cfl=cfl, dv=dv)
          if have_exact is True:
              max_errors = compare_states(red_state=q, blue_state=expected_state)
              statusmesg += f"\n------   Err({max_errors})"
              if rank == 0:
                  logger.info(statusmesg)

              maxerr = np.max(max_errors)
              if maxerr > exittol:
                  logger.error("Solution failed to follow expected result.")
                  checkpoint_status = 1

      if do_viz:
          dim = discr.dim
          io_fields = make_io_fields(dim, q, dv, eos)
          if have_exact is True:
              io_fields.append(("exact_soln", expected_state))
              result_resid = q - expected_state
              io_fields.append(("residual", result_resid))
          make_output_dump(visualizer, basename=vizname, io_fields=io_fields,
                           comm=comm, step=step, t=t, overwrite=True)

      return checkpoint_status
  \<close>
  In the model the discretization is its dimension \<open>discr.dim\<close> (its nodes are fixed inside
  \<open>exact_soln\<close>), the communicator \<open>comm\<close> is \<open>None\<close> or \<open>Some r\<close> with \<open>r\<close> the value
  of \<open>comm.Get_rank()\<close>, and \<open>exact_soln\<close> is \<open>None\<close> or \<open>Some f\<close> with \<open>f t\<close> the
  expected state at time \<open>t\<close>. The logger and the visualizer are the sinks of the events.
  \<open>expected_state\<close> is bound exactly when \<open>have_exact\<close> is true, so it is an option and the
  tests of \<open>have_exact\<close> are case distinctions on it. The result is the list of events and
  either the returned status or the exception that ended the call.
\<close>

definition sim_checkpoint ::
  "'a simutil_imports \<Rightarrow> nat \<Rightarrow> ('a \<Rightarrow> 'a) \<Rightarrow> 'a \<Rightarrow> string \<Rightarrow> (real \<Rightarrow> 'a) option \<Rightarrow> int \<Rightarrow> real \<Rightarrow>
   real \<Rightarrow> real \<Rightarrow> int \<Rightarrow> int \<Rightarrow> real \<Rightarrow> bool \<Rightarrow> nat option \<Rightarrow> 'a event list \<times> (py_error + int)"
where
  "sim_checkpoint imp discr_dim eos q vizname exact_soln step t dt cfl nstatus nviz exittol
       constant_cfl comm =
     (let do_viz = check_step step nviz;
          do_status = check_step step nstatus
      in
      if do_viz = False \<and> do_status = False then ([], Inr 0)
      else
        let rank = (case comm of None \<Rightarrow> 0 | Some c \<Rightarrow> c);
            checkpoint_status = 0;
            dv = eos q;
            ev_eos = [Eos_call q];
            expected_state =
              (case exact_soln of
                 None \<Rightarrow> None
               | Some f \<Rightarrow> if do_status = True \<or> do_viz = True then Some (f t) else None);
            ev_exact = (case expected_state of None \<Rightarrow> [] | Some es \<Rightarrow> [Exact_soln_call t]);
            (ev_status, status_result) =
              (if do_status = True then
                 let statusmesg = make_status_message imp t step dt cfl dv
                 in (case expected_state of
                       None \<Rightarrow> ([], Inr checkpoint_status)
                     | Some es \<Rightarrow>
                         let max_errors = compare_states imp q es;
                             statusmesg = statusmesg @ [CHR 0x0A] @ ''------   Err(''
                                            @ format_errors imp max_errors @ '')'';
                             ev_info = (if rank = 0 then [Logger_info statusmesg] else [])
                         in (case np_max max_errors of
                               Inl e \<Rightarrow> (ev_info, Inl e)
                             | Inr maxerr \<Rightarrow>
                                 if maxerr > exittol
                                 then (ev_info @ [Logger_error ''Solution failed to follow expected result.''],
                                       Inr 1)
                                 else (ev_info, Inr checkpoint_status)))
               else ([], Inr checkpoint_status))
        in
        (case status_result of
           Inl e \<Rightarrow> (ev_eos @ ev_exact @ ev_status, Inl e)
         | Inr checkpoint_status \<Rightarrow>
             let ev_viz =
                   (if do_viz then
                      let dim = discr_dim;
                          io_fields = make_io_fields imp dim q dv;
                          io_fields =
                            (case expected_state of
                               None \<Rightarrow> io_fields
                             | Some es \<Rightarrow>
                                 let io_fields = io_fields @ [(''exact_soln'', es)];
                                     result_resid = array_sub imp q es
                                 in io_fields @ [(''residual'', result_resid)])
                      in [Output_dump vizname io_fields comm step t]
                    else [])
             in (ev_eos @ ev_exact @ ev_status @ ev_viz, Inr checkpoint_status)))"

text \<open>
  A concrete instance, for evaluating calls: a state is a list with one number per field,
  two states are compared field by field, and the equation of state doubles every field.
\<close>

definition imports0 :: "real list simutil_imports" where
  "imports0 =
     \<lparr> make_io_fields = (\<lambda>dim q dv. [(''q'', q), (''dv'', dv)]),
       make_status_message = (\<lambda>t step dt cfl dv. ''Status''),
       compare_states = (\<lambda>q e. map2 (\<lambda>x y. \<bar>x - y\<bar>) q e),
       format_errors = (\<lambda>errs. ''errs''),
       array_sub = (\<lambda>q e. map2 (\<lambda>x y. x - y) q e) \<rparr>"

definition eos0 :: "real list \<Rightarrow> real list" where
  "eos0 q = map (\<lambda>x. 2 * x) q"

section \<open>steppers.py\<close>

subsection \<open>Data of \<open>euler_flow_stepper\<close>\<close>

text \<open>
  \<open>euler_flow_stepper(parameters)\<close> reads its configuration from a mapping. The entries that
  the control flow or the reports use are fields of a record: the numbers and flags, the
  case name, the dimension \<open>mesh.dim\<close> of the mesh, the initializer (\<open>initializer(t, nodes)\<close>
  as a function of \<open>t\<close>; the nodes are fixed by the mesh) and the equation of state
  (\<open>eos(fields)\<close>). The entries \<open>order\<close> and \<open>boundaries\<close> only reach the discretization and
  the right-hand side, which are inside \<open>rk4_step\<close> and \<open>get_inviscid_timestep\<close> below.
\<close>

record 'a parameters =
  p_mesh_dim :: nat
  p_time :: real
  p_tfinal :: real
  p_initializer :: "real \<Rightarrow> 'a"
  p_exittol :: real
  p_casename :: string
  p_eos :: "'a \<Rightarrow> 'a"
  p_cfl :: real
  p_dt :: real
  p_constantcfl :: bool
  p_nstatus :: int

text \<open>
  The functions imported from \<open>mirgecom.euler\<close> and \<open>mirgecom.integrators\<close> and the
  operations of the array library are parameters: \<open>get_inviscid_timestep fields cfl\<close> is
  \<open>get_inviscid_timestep(discr, fields, c=cfl, eos=eos)\<close>, \<open>rk4_step fields t dt\<close> is
  \<open>rk4_step(fields, t, dt, rhs)\<close>, \<open>fields_minus\<close> is the subtraction of two states and
  \<open>max_abs r i\<close> is \<open>np.max(np.abs(r[i].get()))\<close>.
\<close>

record 'a steppers_imports =
  get_inviscid_timestep :: "'a \<Rightarrow> real \<Rightarrow> real"
  rk4_step :: "'a \<Rightarrow> real \<Rightarrow> real \<Rightarrow> 'a"
  split_fields :: "nat \<Rightarrow> 'a \<Rightarrow> (string \<times> 'a) list"
  eos_split_fields :: "nat \<Rightarrow> 'a \<Rightarrow> (string \<times> 'a) list"
  fields_minus :: "'a \<Rightarrow> 'a \<Rightarrow> 'a"
  max_abs :: "'a \<Rightarrow> nat \<Rightarrow> real"

text \<open>
  What a run writes: the initial message (dimension, \<open>dt\<close>, \<open>t_final\<close>, status frequency),
  a status message (step, time, dependent variables, \<open>dt\<close>, \<open>cfl\<close>, errors), a fixed line,
  and a VTK file (case name, rank, step, fields). The numbers that the f-strings format
  are kept as numbers.
\<close>

datatype 'a stepper_event =
    Info_init nat real real int
  | Info_status int real 'a real real "real list"
  | Info string
  | Write_vtk_file string nat int "(string \<times> 'a) list"

text \<open>The local variables that the stepping loop updates, and the events so far.\<close>

record 'a stepper_state =
  st_t :: real
  st_istep :: int
  st_dt :: real
  st_cfl :: real
  st_sdt :: real
  st_fields :: 'a
  st_log :: "'a stepper_event list"

text \<open>Python's built-in \<open>max\<close> of a list.\<close>

fun py_max :: "real list \<Rightarrow> py_error + real" where
  "py_max [] = Inl (ValueError ''max() arg is an empty sequence'')"
| "py_max (x # xs) = Inr (fold max xs x)"

subsection \<open>\<open>write_soln\<close>\<close>

text \<open>
  \<^verbatim>\<open>
  def write_soln():
      dv = eos(fields)
      expected_result = initializer(t, nodes)
      result_resid = fields - expected_result
      maxerr = [np.max(np.abs(result_resid[i].get())) for i in range(dim + 2)]
      mindv = [np.min(dvfld.get()) for dvfld in dv]
      maxdv = [np.max(dvfld.get()) for dvfld in dv]

      statusmsg = (
          f"Status: Step({istep}) Time({t})\n"
          f"------   P({mindv[0]},{maxdv[0]})\n"
          f"------   T({mindv[1]},{maxdv[1]})\n"
          f"------   dt,cfl = ({dt},{cfl})\n"
          f"------   Err({maxerr})"
      )
      logger.info(statusmsg)

      io_fields = split_fields(dim, fields)
      io_fields += eos.split_fields(dim, dv)
      io_fields.append(("exact_soln", expected_result))
      io_fields.append(("residual", result_resid))
      nameform = casename + "-{iorank:04d}-{iostep:04d}.vtu"
      visfilename = nameform.format(iorank=rank, iostep=istep)
      vis.write_vtk_file(visfilename, io_fields)

      return maxerr
  \<close>
  The closure reads the local variables of \<open>euler_flow_stepper\<close>; the model takes them
  from the state. It returns \<open>maxerr\<close> and the two events. \<open>rank\<close> is the constant 0.
\<close>

definition write_soln ::
  "'a steppers_imports \<Rightarrow> 'a parameters \<Rightarrow> 'a stepper_state \<Rightarrow> real list \<times> 'a stepper_event list"
where
  "write_soln imp p s =
     (let dim = p_mesh_dim p;
          rank = 0;
          dv = p_eos p (st_fields s);
          expected_result = p_initializer p (st_t s);
          result_resid = fields_minus imp (st_fields s) expected_result;
          maxerr = map (\<lambda>i. max_abs imp result_resid i) [0..<dim + 2];
          io_fields = split_fields imp dim (st_fields s);
          io_fields = io_fields @ eos_split_fields imp dim dv;
          io_fields = io_fields @ [(''exact_soln'', expected_result)];
          io_fields = io_fields @ [(''residual'', result_resid)]
      in (maxerr,
          [Info_status (st_istep s) (st_t s) dv (st_dt s) (st_cfl s) maxerr,
           Write_vtk_file (p_casename p) rank (st_istep s) io_fields]))"

subsection \<open>The stepping loop\<close>

text \<open>
  \<^verbatim>\<open>
  while t < t_final:

      if constantcfl is True:
          dt = sdt
      else:
          cfl = dt / sdt

      if nstepstatus > 0:
          if istep % nstepstatus == 0:
              write_soln()

      fields = rk4_step(fields, t, dt, rhs)
      t += dt
      istep += 1

      sdt = get_inviscid_timestep(discr, fields, c=cfl, eos=eos)
  \<close>
  One iteration is \<open>loop_body\<close>. The division of two Python floats raises
  \<open>ZeroDivisionError\<close> when \<open>sdt\<close> is zero; \<open>dt / sdt\<close> and \<open>t += dt\<close> are float
  operations.
\<close>

definition loop_body ::
  "'a steppers_imports \<Rightarrow> 'a parameters \<Rightarrow> 'a stepper_state \<Rightarrow> py_error + 'a stepper_state"
where
  "loop_body imp p s =
     (case (if p_constantcfl p = True then Inr (s\<lparr>st_dt := st_sdt s\<rparr>)
            else if st_sdt s = 0 then Inl ZeroDivisionError
            else Inr (s\<lparr>st_cfl := fdiv (st_dt s) (st_sdt s)\<rparr>)) of
        Inl e \<Rightarrow> Inl e
      | Inr s \<Rightarrow>
          let s = (if p_nstatus p > 0 then
                     (if st_istep s mod p_nstatus p = 0
                      then s\<lparr>st_log := st_log s @ snd (write_soln imp p s)\<rparr>
                      else s)
                   else s);
              s = s\<lparr>st_fields := rk4_step imp (st_fields s) (st_t s) (st_dt s)\<rparr>;
              s = s\<lparr>st_t := fadd (st_t s) (st_dt s)\<rparr>;
              s = s\<lparr>st_istep := st_istep s + 1\<rparr>;
              s = s\<lparr>st_sdt := get_inviscid_timestep imp (st_fields s) (st_cfl s)\<rparr>
          in Inr s)"

text \<open>
  The loop may run forever (nothing makes \<open>dt\<close> positive, and a positive \<open>dt\<close> that is
  small against \<open>t\<close> is lost in the rounding of \<open>t + dt\<close>), so the model counts
  iterations: \<open>None\<close> when the fuel runs out before the loop has stopped, \<open>Some (s, None)\<close>
  when the loop condition fails at state \<open>s\<close>, \<open>Some (s, Some e)\<close> when the iteration started
  at \<open>s\<close> raises \<open>e\<close>.
\<close>

fun stepping_loop ::
  "nat \<Rightarrow> 'a steppers_imports \<Rightarrow> 'a parameters \<Rightarrow> 'a stepper_state
   \<Rightarrow> ('a stepper_state \<times> py_error option) option"
where
  "stepping_loop 0 imp p s =
     (if st_t s < p_tfinal p then None else Some (s, None))"
| "stepping_loop (Suc fuel) imp p s =
     (if st_t s < p_tfinal p then
        (case loop_body imp p s of
           Inl e \<Rightarrow> Some (s, Some e)
         | Inr s' \<Rightarrow> stepping_loop fuel imp p s')
      else Some (s, None))"

subsection \<open>\<open>euler_flow_stepper\<close>\<close>

text \<open>
  Before the loop:
  \<^verbatim>\<open>
  t = parameters['time']
  ...
  rank = 0
  dim = mesh.dim
  istep = 0

  discr = EagerDGDiscretization(cl_ctx, mesh, order=order)
  nodes = discr.nodes().with_queue(queue)
  fields = initializer(0, nodes)
  sdt = get_inviscid_timestep(discr, fields, c=cfl, eos=eos)
  ...
  logger.info(message)
  \<close>
\<close>

definition initial_state :: "'a steppers_imports \<Rightarrow> 'a parameters \<Rightarrow> 'a stepper_state" where
  "initial_state imp p =
     (let fields = p_initializer p 0;
          sdt = get_inviscid_timestep imp fields (p_cfl p)
      in \<lparr> st_t = p_time p, st_istep = 0, st_dt = p_dt p, st_cfl = p_cfl p, st_sdt = sdt,
           st_fields = fields,
           st_log = [Info_init (p_mesh_dim p) (p_dt p) (p_tfinal p) (p_nstatus p)] \<rparr>)"

text \<open>
  After the loop:
  \<^verbatim>\<open>
  if nstepstatus > 0:
      logger.info("Writing final dump.")
      maxerr = max(write_soln())
  else:
      expected_result = initializer(t, nodes)
      result_resid = fields - expected_result
      maxerr = np.max(
          [
              np.max(
                  np.abs(
                      result_resid[i].get()
                  )
              ) for i in range(dim + 2)
          ]
      )

  if maxerr > exittol:
      raise ValueError("Solution failed to follow expected result.")

  logger.info("Goodbye!")
  return(maxerr)
  \<close>
  The result is the list of all events of the run and what the caller gets: the returned
  number or the exception.
\<close>

definition after_loop ::
  "'a steppers_imports \<Rightarrow> 'a parameters \<Rightarrow> 'a stepper_state
   \<Rightarrow> 'a stepper_event list \<times> (py_error + real)"
where
  "after_loop imp p s =
     (let (evs, maxerr) =
            (if p_nstatus p > 0 then
               let evs = st_log s @ [Info ''Writing final dump.''];
                   (errs, evs_soln) = write_soln imp p s
               in (evs @ evs_soln, py_max errs)
             else
               let expected_result = p_initializer p (st_t s);
                   result_resid = fields_minus imp (st_fields s) expected_result
               in (st_log s,
                   np_max (map (\<lambda>i. max_abs imp result_resid i) [0..<p_mesh_dim p + 2])))
      in (case maxerr of
            Inl e \<Rightarrow> (evs, Inl e)
          | Inr maxerr \<Rightarrow>
              if maxerr > p_exittol p
              then (evs, Inl (ValueError ''Solution failed to follow expected result.''))
              else (evs @ [Info ''Goodbye!''], Inr maxerr)))"

text \<open>
  \<^verbatim>\<open>
  def euler_flow_stepper(parameters, ctx_factory=cl.create_some_context):
      ...
      if t_final <= t:
          return(0.0)
      ...
  \<close>
  followed by the three parts above. \<open>None\<close> is a run whose loop has not stopped within the
  fuel.
\<close>

definition euler_flow_stepper ::
  "nat \<Rightarrow> 'a steppers_imports \<Rightarrow> 'a parameters
   \<Rightarrow> ('a stepper_event list \<times> (py_error + real)) option"
where
  "euler_flow_stepper fuel imp p =
     (if p_tfinal p \<le> p_time p then Some ([], Inr 0)
      else
        (case stepping_loop fuel imp p (initial_state imp p) of
           None \<Rightarrow> None
         | Some (s, Some e) \<Rightarrow> Some (st_log s, Inl e)
         | Some (s, None) \<Rightarrow> Some (after_loop imp p s)))"

text \<open>
  A concrete instance, for evaluating runs: a one-dimensional mesh, a state with one
  number per field (three fields), an integrator that adds \<open>dt\<close> to every field, and a
  stable step of a quarter of the CFL number.
\<close>

definition stepper_imports0 :: "real list steppers_imports" where
  "stepper_imports0 =
     \<lparr> get_inviscid_timestep = (\<lambda>fields cfl. cfl / 4),
       rk4_step = (\<lambda>fields t dt. map (\<lambda>x. x + dt) fields),
       split_fields = (\<lambda>dim fields. [(''fields'', fields)]),
       eos_split_fields = (\<lambda>dim dv. [(''dv'', dv)]),
       fields_minus = (\<lambda>a b. map2 (\<lambda>x y. x - y) a b),
       max_abs = (\<lambda>r i. \<bar>r ! i\<bar>) \<rparr>"

text \<open>
  The parameters of a run from time 0 to \<open>t_final\<close> with the fixed step \<open>1/2\<close> and
  tolerance \<open>1/4\<close>, given the status interval and the initializer.
\<close>

definition params0 :: "real \<Rightarrow> int \<Rightarrow> (real \<Rightarrow> real list) \<Rightarrow> real list parameters" where
  "params0 t_final nstatus initializer =
     \<lparr> p_mesh_dim = 1, p_time = 0, p_tfinal = t_final, p_initializer = initializer,
       p_exittol = 1/4, p_casename = ''pulse'', p_eos = (\<lambda>fields. map (\<lambda>x. 2 * x) fields),
       p_cfl = 1, p_dt = 1/2, p_constantcfl = False, p_nstatus = nstatus \<rparr>"

text \<open>
  The parameters of a run from time 1 to \<open>t_final = 3/2\<close> with the fixed step
  \<open>9007199254740994\<close> (that is \<open>2 ^ 53 + 2\<close>); the CFL number makes the first stable step
  equal to that step.
\<close>

definition params1 :: "real list parameters" where
  "params1 =
     \<lparr> p_mesh_dim = 1, p_time = 1, p_tfinal = 3/2, p_initializer = (\<lambda>t. [t, t, t]),
       p_exittol = 1/4, p_casename = ''pulse'', p_eos = (\<lambda>fields. map (\<lambda>x. 2 * x) fields),
       p_cfl = 36028797018963976, p_dt = 9007199254740994, p_constantcfl = False,
       p_nstatus = - 1 \<rparr>"

text \<open>An initializer that the integrator above follows exactly, and one that stays at 0.\<close>

definition exact_init :: "real \<Rightarrow> real list" where
  "exact_init t = [t, t, t]"

definition still_init :: "real \<Rightarrow> real list" where
  "still_init t = [0, 0, 0]"

section \<open>Properties of the float operations\<close>

text \<open>Rounding moves a real by at most half the spacing of the floats around it.\<close>

lemma ulp_pos: "0 < ulp x"
  by (simp add: ulp_def)

lemma round_half_even_error: "\<bar>of_int (round_half_even q) - q\<bar> \<le> 1/2"
proof -
  have "of_int \<lfloor>q\<rfloor> \<le> q" and "q < of_int \<lfloor>q\<rfloor> + 1"
    by linarith+
  then show ?thesis
    by (auto simp: round_half_even_def Let_def abs_le_iff)
qed

lemma rnd_error: "\<bar>rnd x - x\<bar> \<le> ulp x / 2"
proof -
  let ?u = "ulp x"
  have u: "0 < ?u" by (rule ulp_pos)
  have "rnd x - x = (of_int (round_half_even (x / ?u)) - x / ?u) * ?u"
    using u by (simp add: rnd_def field_simps)
  then have "\<bar>rnd x - x\<bar> = \<bar>of_int (round_half_even (x / ?u)) - x / ?u\<bar> * ?u"
    using u by (simp add: abs_mult)
  also have "\<dots> \<le> 1/2 * ?u"
    using u by (intro mult_right_mono round_half_even_error) simp
  finally show ?thesis by simp
qed

lemma rnd_nonneg: "0 \<le> x \<Longrightarrow> 0 \<le> rnd x"
proof -
  assume x: "0 \<le> x"
  have u: "0 < ulp x" by (rule ulp_pos)
  with x have "0 \<le> x / ulp x" by simp
  then have "0 \<le> \<lfloor>x / ulp x\<rfloor>" by simp
  then have "0 \<le> round_half_even (x / ulp x)"
    by (simp add: round_half_even_def Let_def)
  with u show ?thesis by (simp add: rnd_def)
qed

text \<open>
  Evaluating \<open>rnd\<close>: when \<open>x\<close> scaled by a power of two lies between \<open>2 ^ 52\<close> and
  \<open>2 ^ 53\<close>, the spacing at \<open>x\<close> is the inverse of that power, and \<open>rnd x\<close> is the scaled
  value rounded to an integer and scaled back.
\<close>

lemma two_powr_int_diff: "2 powr (real_of_int (int k - int n)) = 2 ^ k / 2 ^ n"
proof -
  have "(2::real) powr (real_of_int (int k - int n)) = 2 powr (real k) / 2 powr (real n)"
    by (simp add: powr_diff)
  also have "(2::real) powr (real k) = 2 ^ k"
    by (rule powr_realpow) simp
  also have "(2::real) powr (real n) = 2 ^ n"
    by (rule powr_realpow) simp
  finally show ?thesis .
qed

lemma floor_log2_scaled:
  assumes "2 ^ 52 \<le> \<bar>x\<bar> * 2 ^ n" and "\<bar>x\<bar> * 2 ^ n < 2 ^ 53"
  shows "\<lfloor>log 2 \<bar>x\<bar>\<rfloor> = 52 - int n"
proof -
  have p: "(0::real) < 2 ^ n" by simp
  have pos: "0 < \<bar>x\<bar>"
  proof (rule ccontr)
    assume "\<not> 0 < \<bar>x\<bar>"
    then have "x = 0" by simp
    with assms(1) show False by simp
  qed
  have "(2::real) ^ 52 / 2 ^ n \<le> \<bar>x\<bar>"
    using assms(1) p by (simp add: pos_divide_le_eq)
  then have lo: "2 powr (real_of_int (52 - int n)) \<le> \<bar>x\<bar>"
    using two_powr_int_diff [of 52 n] by simp
  have "\<bar>x\<bar> < (2::real) ^ 53 / 2 ^ n"
    using assms(2) p by (simp add: pos_less_divide_eq)
  moreover have "real_of_int (52 - int n) + 1 = real_of_int (int 53 - int n)"
    by simp
  ultimately have hi: "\<bar>x\<bar> < 2 powr (real_of_int (52 - int n) + 1)"
    using two_powr_int_diff [of 53 n] by (simp only:)
  from lo hi pos show ?thesis
    by (subst floor_log_eq_powr_iff) simp_all
qed

lemma ulp_scaled:
  assumes "2 ^ 52 \<le> \<bar>x\<bar> * 2 ^ n" and "\<bar>x\<bar> * 2 ^ n < 2 ^ 53" and "n \<le> 1074"
  shows "ulp x = 1 / 2 ^ n"
proof -
  from assms(1) have x0: "x \<noteq> 0" by auto
  have e: "\<lfloor>log 2 \<bar>x\<bar>\<rfloor> - 52 = - int n"
    using floor_log2_scaled [OF assms(1,2)] by simp
  from assms(3) have m: "max (- int n) (- 1074) = - int n"
    by simp
  have "ulp x = 2 powi (- int n)"
    using x0 by (simp only: ulp_def e m if_False)
  also have "\<dots> = 1 / 2 ^ n"
    by (simp add: power_int_minus divide_inverse)
  finally show ?thesis .
qed

lemma rnd_scaled:
  assumes "2 ^ 52 \<le> \<bar>x\<bar> * 2 ^ n" and "\<bar>x\<bar> * 2 ^ n < 2 ^ 53" and "n \<le> 1074"
  shows "rnd x = of_int (round_half_even (x * 2 ^ n)) / 2 ^ n"
  by (simp add: rnd_def ulp_scaled [OF assms])

lemma floor_log2_scaled_up:
  assumes "2 ^ 52 \<le> \<bar>x\<bar> / 2 ^ n" and "\<bar>x\<bar> / 2 ^ n < 2 ^ 53"
  shows "\<lfloor>log 2 \<bar>x\<bar>\<rfloor> = 52 + int n"
proof -
  have p: "(0::real) < 2 ^ n" by simp
  have lo': "(2::real) ^ (52 + n) \<le> \<bar>x\<bar>"
    using assms(1) p by (simp add: pos_le_divide_eq power_add)
  have hi': "\<bar>x\<bar> < (2::real) ^ (53 + n)"
    using assms(2) p by (simp add: pos_divide_less_eq power_add)
  have "(0::real) < 2 ^ (52 + n)" by simp
  with lo' have pos: "0 < \<bar>x\<bar>" by linarith
  have "(2::real) powr (real (52 + n)) = 2 ^ (52 + n)"
    by (rule powr_realpow) simp
  with lo' have lo: "2 powr (real_of_int (52 + int n)) \<le> \<bar>x\<bar>"
    by simp
  have "(2::real) powr (real (53 + n)) = 2 ^ (53 + n)"
    by (rule powr_realpow) simp
  moreover have "real_of_int (52 + int n) + 1 = real (53 + n)"
    by simp
  ultimately have hi: "\<bar>x\<bar> < 2 powr (real_of_int (52 + int n) + 1)"
    using hi' by (simp only:)
  from lo hi pos show ?thesis
    by (subst floor_log_eq_powr_iff) simp_all
qed

lemma ulp_scaled_up:
  assumes "2 ^ 52 \<le> \<bar>x\<bar> / 2 ^ n" and "\<bar>x\<bar> / 2 ^ n < 2 ^ 53"
  shows "ulp x = 2 ^ n"
proof -
  from assms(1) have x0: "x \<noteq> 0" by auto
  have e: "\<lfloor>log 2 \<bar>x\<bar>\<rfloor> - 52 = int n"
    using floor_log2_scaled_up [OF assms] by simp
  have m: "max (int n) (- 1074) = int n"
    by simp
  have "ulp x = 2 powi (int n)"
    using x0 by (simp only: ulp_def e m if_False)
  then show ?thesis by simp
qed

lemma rnd_scaled_up:
  assumes "2 ^ 52 \<le> \<bar>x\<bar> / 2 ^ n" and "\<bar>x\<bar> / 2 ^ n < 2 ^ 53"
  shows "rnd x = of_int (round_half_even (x / 2 ^ n)) * 2 ^ n"
  by (simp add: rnd_def ulp_scaled_up [OF assms])

text \<open>Floats round to themselves; the ones that the evaluated runs meet:\<close>

lemma rnd_0: "rnd 0 = 0"
  by (simp add: rnd_def round_half_even_def)

lemma round_half_even_of_int: "round_half_even (of_int m) = m"
  by (simp add: round_half_even_def)

lemma rnd_of_int_scaled:
  assumes "2 ^ 52 \<le> \<bar>m\<bar>" and "\<bar>m\<bar> < 2 ^ 53" and "n \<le> 1074"
  shows "rnd (of_int m / 2 ^ n) = of_int m / 2 ^ n"
proof -
  have a: "\<bar>real_of_int m / 2 ^ n\<bar> * 2 ^ n = real_of_int \<bar>m\<bar>"
    by (simp add: abs_divide)
  have "(2::real) ^ 52 \<le> real_of_int \<bar>m\<bar>"
    using assms(1) by (metis of_int_le_iff of_int_numeral of_int_power)
  moreover have "real_of_int \<bar>m\<bar> < 2 ^ 53"
    using assms(2) by (metis of_int_less_iff of_int_numeral of_int_power)
  ultimately have "rnd (of_int m / 2 ^ n)
      = of_int (round_half_even (of_int m / 2 ^ n * 2 ^ n)) / 2 ^ n"
    using assms(3) by (intro rnd_scaled) (simp_all only: a)
  also have "real_of_int m / 2 ^ n * 2 ^ n = of_int m" by simp
  finally show ?thesis by (simp only: round_half_even_of_int)
qed

lemma rnd_half: "rnd (1/2) = 1/2"
  using rnd_of_int_scaled [of "2 ^ 52" 53] by simp

lemma rnd_quarter: "rnd (1/4) = 1/4"
  using rnd_of_int_scaled [of "2 ^ 52" 54] by simp

lemma rnd_three_quarters: "rnd (3/4) = 3/4"
  using rnd_of_int_scaled [of "3 * 2 ^ 51" 53] by simp

lemma rnd_1: "rnd 1 = 1"
  using rnd_of_int_scaled [of "2 ^ 52" 52] by simp

lemma rnd_2: "rnd 2 = 2"
  using rnd_of_int_scaled [of "2 ^ 52" 51] by simp

lemma rnd_4: "rnd 4 = 4"
  using rnd_of_int_scaled [of "2 ^ 52" 50] by simp

text \<open>
  Sums and differences that are not floats: \<open>2 ^ 53 + 3\<close>, \<open>0.3 - 0.03\<close>,
  \<open>0.03 + 0.27\<close> and \<open>0.03 + 1\<close>. The first three are ties.
\<close>

lemma round_half_even_big: "round_half_even (9007199254740995 / 2) = 4503599627370498"
  by (simp add: round_half_even_def)

lemma fadd_big: "fadd 1 9007199254740994 = 9007199254740996"
proof -
  have "fadd 1 9007199254740994 = rnd 9007199254740995"
    by (simp add: fadd_def)
  also have "\<dots> = of_int (round_half_even (9007199254740995 / 2 ^ 1)) * 2 ^ 1"
    by (rule rnd_scaled_up) simp_all
  also have "\<dots> = of_int 4503599627370498 * 2"
    by (simp only: power_one_right round_half_even_big)
  also have "\<dots> = 9007199254740996"
    by simp
  finally show ?thesis .
qed

lemma rnd_big: "rnd 9007199254740995 = 9007199254740996"
  using fadd_big by (simp add: fadd_def)

lemma round_half_even_diff: "round_half_even (9727775195120271 / 2) = 4863887597560136"
  by (simp add: round_half_even_def)

lemma round_half_even_sum: "round_half_even (10808639105689191 / 2) = 5404319552844596"
  by (simp add: round_half_even_def)

lemma fsub_0_3_0_03_raw: "fsub (5404319552844595 / 2 ^ 54) (1080863910568919 / 2 ^ 55) = 4863887597560136 / 2 ^ 54"
proof -
  have v: "(5404319552844595::real) / 2 ^ 54 - 1080863910568919 / 2 ^ 55 = 9727775195120271 / 2 ^ 55"
    by simp
  have w: "(9727775195120271::real) / 2 ^ 55 * 2 ^ 54 = 9727775195120271 / 2"
    by simp
  have "fsub (5404319552844595 / 2 ^ 54) (1080863910568919 / 2 ^ 55)
        = rnd (9727775195120271 / 2 ^ 55)"
    by (simp only: fsub_def v)
  also have "\<dots> = of_int (round_half_even (9727775195120271 / 2 ^ 55 * 2 ^ 54)) / 2 ^ 54"
    by (rule rnd_scaled) simp_all
  also have "\<dots> = of_int 4863887597560136 / 2 ^ 54"
    by (simp only: w round_half_even_diff)
  also have "\<dots> = 4863887597560136 / 2 ^ 54"
    by simp
  finally show ?thesis .
qed

lemma fadd_0_03_0_27_raw: "fadd (1080863910568919 / 2 ^ 55) (4863887597560136 / 2 ^ 54) = 5404319552844596 / 2 ^ 54"
proof -
  have v: "(1080863910568919::real) / 2 ^ 55 + 4863887597560136 / 2 ^ 54 = 10808639105689191 / 2 ^ 55"
    by simp
  have w: "(10808639105689191::real) / 2 ^ 55 * 2 ^ 54 = 10808639105689191 / 2"
    by simp
  have "fadd (1080863910568919 / 2 ^ 55) (4863887597560136 / 2 ^ 54)
        = rnd (10808639105689191 / 2 ^ 55)"
    by (simp only: fadd_def v)
  also have "\<dots> = of_int (round_half_even (10808639105689191 / 2 ^ 55 * 2 ^ 54)) / 2 ^ 54"
    by (rule rnd_scaled) simp_all
  also have "\<dots> = of_int 5404319552844596 / 2 ^ 54"
    by (simp only: w round_half_even_sum)
  also have "\<dots> = 5404319552844596 / 2 ^ 54"
    by simp
  finally show ?thesis .
qed

lemma round_half_even_1_03: "round_half_even (37109660929532887 / 8) = 4638707616191611"
  by (simp add: round_half_even_def)

lemma fadd_0_03_1: "fadd double_0_03 1 = 4638707616191611 / 2 ^ 52"
proof -
  have v: "(1080863910568919::real) / 2 ^ 55 + 1 = 37109660929532887 / 2 ^ 55"
    by simp
  have w: "(37109660929532887::real) / 2 ^ 55 * 2 ^ 52 = 37109660929532887 / 8"
    by simp
  have "fadd double_0_03 1 = rnd (37109660929532887 / 2 ^ 55)"
    by (simp only: fadd_def double_0_03_def v)
  also have "\<dots> = of_int (round_half_even (37109660929532887 / 2 ^ 55 * 2 ^ 52)) / 2 ^ 52"
    by (rule rnd_scaled) simp_all
  also have "\<dots> = of_int 4638707616191611 / 2 ^ 52"
    by (simp only: w round_half_even_1_03)
  also have "\<dots> = 4638707616191611 / 2 ^ 52"
    by simp
  finally show ?thesis .
qed

lemma fsub_0_3_0_03: "fsub double_0_3 double_0_03 = 4863887597560136 / 2 ^ 54"
  unfolding double_0_3_def double_0_03_def by (rule fsub_0_3_0_03_raw)

lemma fadd_0_03_0_27: "fadd double_0_03 (4863887597560136 / 2 ^ 54) = 5404319552844596 / 2 ^ 54"
  unfolding double_0_03_def by (rule fadd_0_03_0_27_raw)

text \<open>
  \<open>double_0_03\<close> and \<open>double_0_3\<close> are the floats nearest to \<open>3/100\<close> and \<open>3/10\<close>,
  and the float difference above is the float nearest to \<open>27/100\<close>.
\<close>

lemma double_0_03_nearest: "rnd (3/100) = double_0_03"
proof -
  have "rnd (3/100) = of_int (round_half_even (3/100 * 2 ^ 58)) / 2 ^ 58"
    by (rule rnd_scaled) simp_all
  also have "round_half_even (3/100 * 2 ^ 58) = 8646911284551352"
    by (simp add: round_half_even_def)
  finally show ?thesis by (simp add: double_0_03_def)
qed

lemma double_0_3_nearest: "rnd (3/10) = double_0_3"
proof -
  have "rnd (3/10) = of_int (round_half_even (3/10 * 2 ^ 54)) / 2 ^ 54"
    by (rule rnd_scaled) simp_all
  also have "round_half_even (3/10 * 2 ^ 54) = 5404319552844595"
    by (simp add: round_half_even_def)
  finally show ?thesis by (simp add: double_0_3_def)
qed

lemma double_0_27_nearest: "rnd (27/100) = 4863887597560136 / 2 ^ 54"
proof -
  have "rnd (27/100) = of_int (round_half_even (27/100 * 2 ^ 54)) / 2 ^ 54"
    by (rule rnd_scaled) simp_all
  also have "round_half_even (27/100 * 2 ^ 54) = 4863887597560136"
    by (simp add: round_half_even_def)
  finally show ?thesis by simp
qed

text \<open>The float range contains 1.\<close>

lemma one_le_max_double: "1 \<le> max_double"
proof -
  have "(1::real) \<le> 2 ^ 53 - 1" by simp
  moreover have "(1::real) \<le> 2 ^ 971" by (rule one_le_power) simp
  ultimately have "(1::real) * 1 \<le> (2 ^ 53 - 1) * 2 ^ 971"
    by (intro mult_mono) simp_all
  then show ?thesis by (simp add: max_double_def)
qed

section \<open>Properties of \<open>check_step\<close> and \<open>inviscid_sim_timestep\<close>\<close>

text \<open>
  Claim C7. For every integer step and integer interval, \<open>check_step step interval\<close> is
  true when the interval is 0, false when the interval is negative, and otherwise equal to
  \<open>step mod interval = 0\<close>. The model is a total function with no state, defined on every
  pair of integers, \<open>step = 0\<close> included.
\<close>

theorem check_step_spec:
  "check_step step 0 = True
   \<and> (interval < 0 \<longrightarrow> check_step step interval = False)
   \<and> (0 < interval \<longrightarrow> check_step step interval = (step mod interval = 0))
   \<and> (0 < interval \<longrightarrow> check_step 0 interval = True)"
  by (simp add: check_step_def)

theorem check_step_spec_witness:
  "check_step 7 0 = True
   \<and> check_step 7 (- 3) = False
   \<and> check_step 12 4 = (12 mod 4 = (0::int))
   \<and> check_step 13 4 = (13 mod 4 = (0::int))
   \<and> check_step (- 8) 4 = True
   \<and> check_step (- 7) 4 = False
   \<and> check_step 0 4 = True"
  using check_step_spec [of 7 "- 3"] check_step_spec [of 12 4] check_step_spec [of 13 4]
    check_step_spec [of "- 8" 4] check_step_spec [of "- 7" 4]
  by simp

text \<open>
  Claim C3 says that for \<open>t < t_final\<close> the returned step \<open>dt'\<close> satisfies
  \<open>t + dt' \<le> t_final\<close>. In float arithmetic the clipped step is the rounded difference
  \<open>t_final - t\<close>: at \<open>t = 0.03\<close>, \<open>t_final = 0.3\<close> and \<open>dt = 1\<close> the result is the float
  \<open>0.27\<close>, and \<open>t + dt'\<close> is greater than \<open>t_final\<close>, as the exact sum and as the float
  sum (\<open>0.30000000000000004\<close>).
\<close>

theorem inviscid_sim_timestep_overshoots:
  "double_0_03 < double_0_3
   \<and> inviscid_sim_timestep (\<lambda>d q c e. c) () () double_0_03 1 1 () double_0_3 False
       = 4863887597560136 / 2 ^ 54
   \<and> double_0_3 < double_0_03 + 4863887597560136 / 2 ^ 54
   \<and> double_0_3 < fadd double_0_03 (4863887597560136 / 2 ^ 54)"
proof -
  have a: "double_0_03 < double_0_3"
    by (simp add: double_0_03_def double_0_3_def)
  have "double_0_3 < fadd double_0_03 1"
    by (simp add: fadd_0_03_1) (simp add: double_0_3_def)
  then have b: "inviscid_sim_timestep (\<lambda>d q c e. c) () () double_0_03 1 1 () double_0_3 False
       = 4863887597560136 / 2 ^ 54"
    by (simp add: inviscid_sim_timestep_def fsub_0_3_0_03)
  have c: "double_0_3 < double_0_03 + 4863887597560136 / 2 ^ 54"
    by (simp add: double_0_03_def double_0_3_def)
  have d: "double_0_3 < fadd double_0_03 (4863887597560136 / 2 ^ 54)"
    by (simp only: fadd_0_03_0_27) (simp add: double_0_3_def)
  from a b c d show ?thesis by blast
qed

text \<open>
  Claim C3, as the code has it. For every call of \<open>inviscid_sim_timestep\<close> with
  \<open>t < t_final\<close>, with \<open>+\<close> and \<open>-\<close> the float operations: when the unclipped step does
  not overshoot (\<open>t + step \<le> t_final\<close>), the result is that step and \<open>t + dt' \<le> t_final\<close>;
  when it overshoots, the result is exactly the float \<open>t_final - t\<close>, which is not
  negative and (unless the difference is beyond the float range) brings \<open>t + dt'\<close> within
  half a unit in the last place of \<open>t_final - t\<close> of \<open>t_final\<close>; and when \<open>constant_cfl\<close> is
  false and \<open>t + dt \<le> t_final\<close> holds already, the result is the input \<open>dt\<close>.
\<close>

theorem inviscid_sim_timestep_clipped:
  assumes "t < t_final"
  shows
    "(fadd t (if constant_cfl then g discr state cfl eos else dt) \<le> t_final
        \<longrightarrow> inviscid_sim_timestep g discr state t dt cfl eos t_final constant_cfl
              = (if constant_cfl then g discr state cfl eos else dt)
            \<and> fadd t (inviscid_sim_timestep g discr state t dt cfl eos t_final constant_cfl)
                \<le> t_final)
     \<and> (fadd t (if constant_cfl then g discr state cfl eos else dt) > t_final
        \<longrightarrow> inviscid_sim_timestep g discr state t dt cfl eos t_final constant_cfl = fsub t_final t
            \<and> 0 \<le> inviscid_sim_timestep g discr state t dt cfl eos t_final constant_cfl
            \<and> (t_final - t \<le> max_double
                \<longrightarrow> \<bar>t + inviscid_sim_timestep g discr state t dt cfl eos t_final constant_cfl
                      - t_final\<bar> \<le> ulp (t_final - t) / 2))
     \<and> (\<not> constant_cfl \<and> fadd t dt \<le> t_final
        \<longrightarrow> inviscid_sim_timestep g discr state t dt cfl eos t_final constant_cfl = dt)"
proof -
  have e: "\<bar>t + fsub t_final t - t_final\<bar> \<le> ulp (t_final - t) / 2"
    using rnd_error [of "t_final - t"] by (simp add: fsub_def algebra_simps)
  have n: "0 \<le> fsub t_final t"
    using assms by (simp add: fsub_def rnd_nonneg)
  from e n show ?thesis
    by (simp add: inviscid_sim_timestep_def Let_def)
qed

theorem inviscid_sim_timestep_clipped_witness:
  "inviscid_sim_timestep (\<lambda>d q c e. c * 4) () () 0 (1/2) 1 () (3/4) False = 1/2
   \<and> fadd 0 (inviscid_sim_timestep (\<lambda>d q c e. c * 4) () () 0 (1/2) 1 () (3/4) False) \<le> 3/4
   \<and> inviscid_sim_timestep (\<lambda>d q c e. c * 4) () () (1/2) (1/2) 1 () (3/4) False = fsub (3/4) (1/2)
   \<and> inviscid_sim_timestep (\<lambda>d q c e. c * 4) () () 0 (1/2) 1 () (3/4) True = fsub (3/4) 0
   \<and> inviscid_sim_timestep (\<lambda>d q c e. c) () () double_0_03 1 1 () double_0_3 False
       = fsub double_0_3 double_0_03
   \<and> \<bar>double_0_03 + inviscid_sim_timestep (\<lambda>d q c e. c) () () double_0_03 1 1 () double_0_3 False
        - double_0_3\<bar> \<le> ulp (double_0_3 - double_0_03) / 2"
proof -
  have a: "(0::real) < 3/4" and b: "(1/2::real) < 3/4" by simp_all
  have c: "double_0_03 < double_0_3"
    by (simp add: double_0_03_def double_0_3_def)
  have f1: "fadd 0 (1/2) \<le> 3/4" by (simp add: fadd_def rnd_half)
  have f2: "fadd (1/2) (1/2) > 3/4" by (simp add: fadd_def rnd_1)
  have f3: "fadd 0 ((1::real) * 4) > 3/4" by (simp add: fadd_def rnd_4)
  have f4: "fadd double_0_03 1 > double_0_3"
    by (simp add: fadd_0_03_1) (simp add: double_0_3_def)
  have m: "double_0_3 - double_0_03 \<le> max_double"
    using one_le_max_double by (simp add: double_0_03_def double_0_3_def)
  note w1 = inviscid_sim_timestep_clipped [OF a, where g = "\<lambda>d q c e. c * 4" and discr = "()"
        and state = "()" and dt = "1/2" and cfl = 1 and eos = "()" and constant_cfl = False,
        unfolded if_False]
  note w2 = inviscid_sim_timestep_clipped [OF b, where g = "\<lambda>d q c e. c * 4" and discr = "()"
        and state = "()" and dt = "1/2" and cfl = 1 and eos = "()" and constant_cfl = False,
        unfolded if_False]
  note w3 = inviscid_sim_timestep_clipped [OF a, where g = "\<lambda>d q c e. c * 4" and discr = "()"
        and state = "()" and dt = "1/2" and cfl = 1 and eos = "()" and constant_cfl = True,
        unfolded if_True]
  note w4 = inviscid_sim_timestep_clipped [OF c, where g = "\<lambda>d q c e. c" and discr = "()"
        and state = "()" and dt = 1 and cfl = 1 and eos = "()" and constant_cfl = False,
        unfolded if_False]
  from w1 f1 w2 f2 w3 f3 w4 f4 m show ?thesis by blast
qed

text \<open>
  Claim C10. With \<open>constant_cfl\<close> false, the result of \<open>inviscid_sim_timestep\<close> depends
  only on \<open>t\<close>, \<open>dt\<close> and \<open>t_final\<close>: two calls that agree on these three and differ in the
  discretization, the state, the CFL number, the equation of state (or the CFL time step
  routine itself) return the same step.
\<close>

theorem inviscid_sim_timestep_fixed_step_independent:
  "inviscid_sim_timestep g1 discr1 state1 t dt cfl1 eos1 t_final False
   = inviscid_sim_timestep g2 discr2 state2 t dt cfl2 eos2 t_final False"
  by (simp add: inviscid_sim_timestep_def)

section \<open>Properties of \<open>sim_checkpoint\<close>\<close>

text \<open>On a non-empty sequence \<open>np.max\<close> returns the greatest element.\<close>

lemma np_max_nonempty: "xs \<noteq> [] \<Longrightarrow> np_max xs = Inr (Max (set xs))"
proof (cases xs)
  case Nil
  assume "xs \<noteq> []"
  with Nil show ?thesis by simp
next
  case (Cons x ys)
  have "fold max ys x = Max (set (x # ys))"
    by (rule Max.set_eq_fold [symmetric])
  with Cons show ?thesis by simp
qed

text \<open>
  Claim C1. When the status interval is due and a reference solution is configured, and
  the greatest of the per-field maximum errors between the state and the expected state
  exceeds \<open>exittol\<close>, \<open>sim_checkpoint\<close> returns status 1 as a value (no exception); when
  that greatest error is within the tolerance, or there is no reference solution, or the
  status interval is not due, it returns 0.
\<close>

theorem sim_checkpoint_status:
  "(check_step step nstatus \<and> compare_states imp q (ex t) \<noteq> []
      \<longrightarrow> snd (sim_checkpoint imp discr_dim eos q vizname (Some ex) step t dt cfl nstatus nviz exittol
                 constant_cfl comm)
          = Inr (if Max (set (compare_states imp q (ex t))) > exittol then 1 else 0))
   \<and> snd (sim_checkpoint imp discr_dim eos q vizname None step t dt cfl nstatus nviz exittol
            constant_cfl comm) = Inr 0
   \<and> (\<not> check_step step nstatus
      \<longrightarrow> snd (sim_checkpoint imp discr_dim eos q vizname exact_soln step t dt cfl nstatus nviz exittol
                 constant_cfl comm) = Inr 0)"
  by (simp add: sim_checkpoint_def Let_def np_max_nonempty split: option.splits)

theorem sim_checkpoint_status_witness:
  "snd (sim_checkpoint imports0 2 eos0 [1, 2] ''pulse'' (Some (\<lambda>t. [1 + t, 2])) 4 1 (1/2) 1 2 2 (1/4)
        False None) = Inr 1
   \<and> snd (sim_checkpoint imports0 2 eos0 [1, 2] ''pulse'' (Some (\<lambda>t. [1 + t, 2])) 4 (1/8) (1/2) 1 2 2 (1/4)
        False None) = Inr 0
   \<and> snd (sim_checkpoint imports0 2 eos0 [1, 2] ''pulse'' None 4 1 (1/2) 1 2 2 (1/4)
        False None) = Inr 0
   \<and> snd (sim_checkpoint imports0 2 eos0 [1, 2] ''pulse'' (Some (\<lambda>t. [1 + t, 2])) 4 1 (1/2) 1 3 2 (1/4)
        False None) = Inr 0"
  using
    sim_checkpoint_status [where step = 4 and nstatus = 2 and imp = imports0 and q = "[1, 2]"
      and ex = "\<lambda>t. [1 + t, 2]" and t = 1 and exittol = "1/4" and discr_dim = 2 and eos = eos0
      and vizname = "''pulse''" and dt = "1/2" and cfl = 1 and nviz = 2 and constant_cfl = False
      and comm = None]
    sim_checkpoint_status [where step = 4 and nstatus = 2 and imp = imports0 and q = "[1, 2]"
      and ex = "\<lambda>t. [1 + t, 2]" and t = "1/8" and exittol = "1/4" and discr_dim = 2 and eos = eos0
      and vizname = "''pulse''" and dt = "1/2" and cfl = 1 and nviz = 2 and constant_cfl = False
      and comm = None]
    sim_checkpoint_status [where step = 4 and nstatus = 3 and imp = imports0 and q = "[1, 2]"
      and exact_soln = "Some (\<lambda>t. [1 + t, 2])" and t = 1 and exittol = "1/4" and discr_dim = 2
      and eos = eos0 and vizname = "''pulse''" and dt = "1/2" and cfl = 1 and nviz = 2
      and constant_cfl = False and comm = None]
  by (simp add: check_step_def imports0_def)

text \<open>
  Claim C6. When neither the status interval nor the visualization interval makes the step
  due, \<open>sim_checkpoint\<close> returns 0 at once: the list of events is empty, so neither the
  exact solution nor the equation of state has been evaluated, and nothing was logged or
  dumped.
\<close>

theorem sim_checkpoint_fast_path:
  assumes "\<not> check_step step nviz" and "\<not> check_step step nstatus"
  shows "sim_checkpoint imp discr_dim eos q vizname exact_soln step t dt cfl nstatus nviz exittol
           constant_cfl comm = ([], Inr 0)"
  using assms by (simp add: sim_checkpoint_def)

theorem sim_checkpoint_fast_path_witness:
  "\<not> check_step 3 2 \<and> \<not> check_step 3 (- 1)
   \<and> sim_checkpoint imports0 2 eos0 [1, 2] ''pulse'' (Some (\<lambda>t. [1 + t, 2])) 3 1 (1/2) 1 (- 1) 2 (1/4)
        False (Some 0) = ([], Inr 0)"
proof -
  have a: "\<not> check_step 3 2" and b: "\<not> check_step 3 (- 1)"
    by (simp_all add: check_step_def)
  from a b sim_checkpoint_fast_path [OF a b] show ?thesis by simp
qed

text \<open>
  Claim C9. Divergence is detected on status steps only: whenever the status interval is
  not due, \<open>sim_checkpoint\<close> returns 0, also when the visualization interval is due, a
  reference solution is supplied and its distance to the state exceeds \<open>exittol\<close>.
\<close>

theorem sim_checkpoint_status_not_due:
  assumes "\<not> check_step step nstatus"
  shows "snd (sim_checkpoint imp discr_dim eos q vizname exact_soln step t dt cfl nstatus nviz exittol
           constant_cfl comm) = Inr 0"
  using assms by (simp add: sim_checkpoint_def Let_def split: option.splits)

theorem sim_checkpoint_status_not_due_witness:
  "\<not> check_step 4 3 \<and> check_step 4 2
   \<and> Max (set (compare_states imports0 [1, 2] [1 + 1, 2])) > 1/4
   \<and> snd (sim_checkpoint imports0 2 eos0 [1, 2] ''pulse'' (Some (\<lambda>t. [1 + t, 2])) 4 1 (1/2) 1 3 2 (1/4)
        False None) = Inr 0"
proof -
  have a: "\<not> check_step 4 3" and b: "check_step 4 2"
    by (simp_all add: check_step_def)
  have c: "Max (set (compare_states imports0 [1, 2] [1 + 1, 2])) > 1/4"
    by (simp add: imports0_def)
  from a b c sim_checkpoint_status_not_due [OF a] show ?thesis by simp
qed

text \<open>
  Claim C8 says that on a process whose rank is not 0 \<open>sim_checkpoint\<close> emits neither the
  status line nor the divergence error line. The status line is indeed guarded by
  \<open>rank == 0\<close>:
\<close>

lemma sim_checkpoint_no_info_off_rank_0:
  "rank \<noteq> 0 \<Longrightarrow>
   Logger_info m \<notin> set (fst (sim_checkpoint imp discr_dim eos q vizname exact_soln step t dt cfl nstatus
                              nviz exittol constant_cfl (Some rank)))"
  by (simp add: sim_checkpoint_def Let_def split: option.splits sum.splits)

text \<open>
  Claim C8, the error line. \<open>logger.error\<close> is outside that guard: on rank 1, at a due
  status step with a reference solution further than \<open>exittol\<close> from the state, the events
  of the call are the two evaluations and the error line.
\<close>

theorem sim_checkpoint_error_line_on_rank_1:
  "sim_checkpoint imports0 2 eos0 [1, 2] ''pulse'' (Some (\<lambda>t. [1 + t, 2])) 4 1 (1/2) 1 2 (- 1) (1/4)
     False (Some 1)
   = ([Eos_call [1, 2], Exact_soln_call 1,
       Logger_error ''Solution failed to follow expected result.''], Inr 1)"
  by (simp add: sim_checkpoint_def check_step_def imports0_def)

section \<open>Properties of \<open>euler_flow_stepper\<close>\<close>

subsection \<open>Auxiliary facts\<close>

text \<open>On a non-empty list Python's \<open>max\<close> returns the greatest element.\<close>

lemma py_max_nonempty: "xs \<noteq> [] \<Longrightarrow> py_max xs = Inr (Max (set xs))"
proof (cases xs)
  case Nil
  assume "xs \<noteq> []"
  with Nil show ?thesis by simp
next
  case (Cons x ys)
  have "fold max ys x = Max (set (x # ys))"
    by (rule Max.set_eq_fold [symmetric])
  with Cons show ?thesis by simp
qed

text \<open>
  \<open>write_soln\<close> returns one error per field, \<open>dim + 2\<close> of them, so the list is never
  empty; its two events carry the step, the time and the fields of the state it is
  called in.
\<close>

lemma write_soln_errors:
  "fst (write_soln imp p s)
   = map (\<lambda>i. max_abs imp (fields_minus imp (st_fields s) (p_initializer p (st_t s))) i)
       [0..<p_mesh_dim p + 2]"
  by (simp add: write_soln_def Let_def)

lemma write_soln_errors_nonempty: "fst (write_soln imp p s) \<noteq> []"
  by (simp add: write_soln_errors)

lemma write_soln_events:
  "snd (write_soln imp p s)
   = [Info_status (st_istep s) (st_t s) (p_eos p (st_fields s)) (st_dt s) (st_cfl s)
        (fst (write_soln imp p s)),
      Write_vtk_file (p_casename p) 0 (st_istep s)
        (split_fields imp (p_mesh_dim p) (st_fields s)
         @ eos_split_fields imp (p_mesh_dim p) (p_eos p (st_fields s))
         @ [(''exact_soln'', p_initializer p (st_t s)),
            (''residual'', fields_minus imp (st_fields s) (p_initializer p (st_t s)))])]"
  by (simp add: write_soln_def Let_def)

text \<open>What one iteration does to the clock.\<close>
lemma loop_body_clock:
  assumes "loop_body imp p s = Inr s'"
  shows "st_istep s' = st_istep s + 1"
    and "st_dt s' = (if p_constantcfl p then st_sdt s else st_dt s)"
    and "st_t s' = fadd (st_t s) (st_dt s')"
  using assms by (auto simp: loop_body_def Let_def split: if_splits)

text \<open>
  Loop invariant: once an iteration has run, the time is the float sum of a time below
  \<open>t_final\<close> and the current step.
\<close>

lemma stepping_loop_exit:
  assumes "stepping_loop fuel imp p s0 = Some (s, None)"
    and "st_t s0 < p_tfinal p
         \<or> (\<exists>t_prev. t_prev < p_tfinal p \<and> st_t s0 = fadd t_prev (st_dt s0))"
  shows "p_tfinal p \<le> st_t s
         \<and> (\<exists>t_prev. t_prev < p_tfinal p \<and> st_t s = fadd t_prev (st_dt s))"
  using assms
proof (induction fuel arbitrary: s0)
  case 0
  then show ?case by (auto split: if_splits)
next
  case (Suc fuel)
  show ?case
  proof (cases "st_t s0 < p_tfinal p")
    case False
    with Suc.prems show ?thesis by auto
  next
    case True
    with Suc.prems(1) obtain s1 where b: "loop_body imp p s0 = Inr s1"
      and r: "stepping_loop fuel imp p s1 = Some (s, None)"
      by (auto split: sum.splits)
    from loop_body_clock(3) [OF b] True
    have "\<exists>t_prev. t_prev < p_tfinal p \<and> st_t s1 = fadd t_prev (st_dt s1)"
      by blast
    with Suc.IH [OF r] show ?thesis by blast
  qed
qed

text \<open>
  The code after the loop, in closed form: neither \<open>max\<close> nor \<open>np.max\<close> can fail
  there, and both branches compute the greatest of the errors that \<open>write_soln\<close> returns.
\<close>

lemma after_loop_eq:
  "after_loop imp p s =
     (st_log s
        @ (if 0 < p_nstatus p then [Info ''Writing final dump.''] @ snd (write_soln imp p s) else [])
        @ (if p_exittol p < Max (set (fst (write_soln imp p s))) then [] else [Info ''Goodbye!'']),
      if p_exittol p < Max (set (fst (write_soln imp p s)))
      then Inl (ValueError ''Solution failed to follow expected result.'')
      else Inr (Max (set (fst (write_soln imp p s)))))"
proof -
  have a: "py_max (fst (write_soln imp p s)) = Inr (Max (set (fst (write_soln imp p s))))"
    by (rule py_max_nonempty [OF write_soln_errors_nonempty])
  have b: "np_max (fst (write_soln imp p s)) = Inr (Max (set (fst (write_soln imp p s))))"
    by (rule np_max_nonempty [OF write_soln_errors_nonempty])
  show ?thesis
  proof (cases "0 < p_nstatus p")
    case True
    with a show ?thesis
      by (simp add: after_loop_def Let_def split_beta)
  next
    case False
    from b have "np_max (map (\<lambda>i. max_abs imp (fields_minus imp (st_fields s) (p_initializer p (st_t s))) i)
       [0..<p_mesh_dim p + 2]) = Inr (Max (set (fst (write_soln imp p s))))"
      by (simp only: write_soln_errors)
    with False show ?thesis
      by (simp add: after_loop_def Let_def split_beta)
  qed
qed

text \<open>The definitions and facts to unfold when a run of a concrete instance is evaluated.\<close>

lemmas run0_defs =
  euler_flow_stepper_def after_loop_def initial_state_def loop_body_def write_soln_def
  stepper_imports0_def params0_def exact_init_def still_init_def Let_def numeral_3_eq_3
  fadd_def fdiv_def rnd_half rnd_1 rnd_2

subsection \<open>The clock\<close>

text \<open>
  Claim C2 says that every iteration increments \<open>istep\<close> by 1 and \<open>t\<close> by exactly the
  \<open>dt\<close> used in it, and that the last \<open>dt\<close> is clipped so that the final \<open>t\<close> exceeds
  \<open>t_final\<close> by rounding at most. The loop of \<open>euler_flow_stepper\<close> does not clip: the
  run from 0 to \<open>t_final = 3/4\<close> with \<open>dt = 1/2\<close> leaves the loop after two iterations at
  \<open>t = 1\<close>. And \<open>t += dt\<close> rounds: the run from \<open>t = 1\<close> with \<open>dt = 9007199254740994\<close>
  has \<open>t = 9007199254740996\<close> after its one iteration, so \<open>t\<close> has not increased by
  \<open>dt\<close>.
\<close>

theorem stepping_loop_overshoots:
  "stepping_loop 3 stepper_imports0 (params0 (3/4) (- 1) exact_init)
     (initial_state stepper_imports0 (params0 (3/4) (- 1) exact_init))
   = Some (\<lparr> st_t = 1, st_istep = 2, st_dt = 1/2, st_cfl = 1, st_sdt = 1/4, st_fields = [1, 1, 1],
             st_log = [Info_init 1 (1/2) (3/4) (- 1)] \<rparr>, None)
   \<and> p_tfinal (params0 (3/4) (- 1) exact_init) < 1
   \<and> stepping_loop 3 stepper_imports0 params1 (initial_state stepper_imports0 params1)
   = Some (\<lparr> st_t = 9007199254740996, st_istep = 1, st_dt = 9007199254740994, st_cfl = 1,
             st_sdt = 1/4,
             st_fields = [9007199254740994, 9007199254740994, 9007199254740994],
             st_log = [Info_init 1 9007199254740994 (3/2) (- 1)] \<rparr>, None)
   \<and> p_time params1 = 1 \<and> p_dt params1 = 9007199254740994
   \<and> (9007199254740996::real) - 1 \<noteq> 9007199254740994"
proof -
  have a: "stepping_loop 3 stepper_imports0 (params0 (3/4) (- 1) exact_init)
     (initial_state stepper_imports0 (params0 (3/4) (- 1) exact_init))
   = Some (\<lparr> st_t = 1, st_istep = 2, st_dt = 1/2, st_cfl = 1, st_sdt = 1/4, st_fields = [1, 1, 1],
             st_log = [Info_init 1 (1/2) (3/4) (- 1)] \<rparr>, None)"
    by (simp add: run0_defs)
  have b: "stepping_loop 3 stepper_imports0 params1 (initial_state stepper_imports0 params1)
   = Some (\<lparr> st_t = 9007199254740996, st_istep = 1, st_dt = 9007199254740994, st_cfl = 1,
             st_sdt = 1/4,
             st_fields = [9007199254740994, 9007199254740994, 9007199254740994],
             st_log = [Info_init 1 9007199254740994 (3/2) (- 1)] \<rparr>, None)"
    by (simp add: run0_defs params1_def rnd_big)
  have c: "p_tfinal (params0 (3/4) (- 1) exact_init) < 1" "p_time params1 = 1"
    "p_dt params1 = 9007199254740994" "(9007199254740996::real) - 1 \<noteq> 9007199254740994"
    by (simp_all add: params0_def params1_def)
  from a b c show ?thesis by blast
qed

text \<open>
  Claim C2, as the code has it. Every iteration that completes increments \<open>istep\<close> by
  exactly 1 and replaces \<open>t\<close> by the float sum of \<open>t\<close> and the \<open>dt\<close> used in it (\<open>sdt\<close>
  under constant CFL, the configured \<open>dt\<close> otherwise), which is within half a unit in the
  last place of the exact sum unless it is beyond the float range. The step is not
  clipped: when the loop is left, the final \<open>t\<close> is at least \<open>t_final\<close>, and it is the
  float sum of a time below \<open>t_final\<close> and the last \<open>dt\<close>; so it exceeds \<open>t_final\<close> by
  less than the last \<open>dt\<close>, up to that rounding.
\<close>

theorem stepper_clock:
  "(loop_body imp p s = Inr s'
      \<longrightarrow> st_istep s' = st_istep s + 1
          \<and> st_dt s' = (if p_constantcfl p then st_sdt s else st_dt s)
          \<and> st_t s' = fadd (st_t s) (st_dt s')
          \<and> (\<bar>st_t s'\<bar> \<le> max_double
              \<longrightarrow> \<bar>st_t s' - (st_t s + st_dt s')\<bar> \<le> ulp (st_t s + st_dt s') / 2))
   \<and> (p_time p < p_tfinal p \<and> stepping_loop fuel imp p (initial_state imp p) = Some (sf, None)
      \<longrightarrow> p_tfinal p \<le> st_t sf
          \<and> (\<exists>t_prev. t_prev < p_tfinal p \<and> st_t sf = fadd t_prev (st_dt sf)
                \<and> (\<bar>st_t sf\<bar> \<le> max_double
                    \<longrightarrow> \<bar>st_t sf - (t_prev + st_dt sf)\<bar> \<le> ulp (t_prev + st_dt sf) / 2)))"
proof -
  have e: "\<bar>fadd x y - (x + y)\<bar> \<le> ulp (x + y) / 2" for x y
    unfolding fadd_def by (rule rnd_error)
  have i: "st_t (initial_state imp p) = p_time p"
    by (simp add: initial_state_def Let_def)
  have one: "loop_body imp p s = Inr s'
      \<longrightarrow> st_istep s' = st_istep s + 1
          \<and> st_dt s' = (if p_constantcfl p then st_sdt s else st_dt s)
          \<and> st_t s' = fadd (st_t s) (st_dt s')
          \<and> (\<bar>st_t s'\<bar> \<le> max_double
              \<longrightarrow> \<bar>st_t s' - (st_t s + st_dt s')\<bar> \<le> ulp (st_t s + st_dt s') / 2)"
  proof (intro impI)
    assume b: "loop_body imp p s = Inr s'"
    note c = loop_body_clock [OF b]
    have "\<bar>st_t s' - (st_t s + st_dt s')\<bar> \<le> ulp (st_t s + st_dt s') / 2"
      using e [of "st_t s" "st_dt s'"] by (simp only: c(3))
    with c show "st_istep s' = st_istep s + 1
          \<and> st_dt s' = (if p_constantcfl p then st_sdt s else st_dt s)
          \<and> st_t s' = fadd (st_t s) (st_dt s')
          \<and> (\<bar>st_t s'\<bar> \<le> max_double
              \<longrightarrow> \<bar>st_t s' - (st_t s + st_dt s')\<bar> \<le> ulp (st_t s + st_dt s') / 2)"
      by blast
  qed
  have run: "p_time p < p_tfinal p \<and> stepping_loop fuel imp p (initial_state imp p) = Some (sf, None)
      \<longrightarrow> p_tfinal p \<le> st_t sf
          \<and> (\<exists>t_prev. t_prev < p_tfinal p \<and> st_t sf = fadd t_prev (st_dt sf)
                \<and> (\<bar>st_t sf\<bar> \<le> max_double
                    \<longrightarrow> \<bar>st_t sf - (t_prev + st_dt sf)\<bar> \<le> ulp (t_prev + st_dt sf) / 2))"
  proof (intro impI, elim conjE)
    assume "p_time p < p_tfinal p"
      and r: "stepping_loop fuel imp p (initial_state imp p) = Some (sf, None)"
    with i have "st_t (initial_state imp p) < p_tfinal p" by simp
    with stepping_loop_exit [OF r] obtain t_prev
      where "p_tfinal p \<le> st_t sf" and "t_prev < p_tfinal p"
        and "st_t sf = fadd t_prev (st_dt sf)"
      by blast
    with e [of t_prev "st_dt sf"] show "p_tfinal p \<le> st_t sf
          \<and> (\<exists>t_prev. t_prev < p_tfinal p \<and> st_t sf = fadd t_prev (st_dt sf)
                \<and> (\<bar>st_t sf\<bar> \<le> max_double
                    \<longrightarrow> \<bar>st_t sf - (t_prev + st_dt sf)\<bar> \<le> ulp (t_prev + st_dt sf) / 2))"
      by auto
  qed
  from one run show ?thesis by (rule conjI)
qed

theorem stepper_clock_witness:
  "loop_body stepper_imports0 params1 (initial_state stepper_imports0 params1)
   = Inr \<lparr> st_t = 9007199254740996, st_istep = 1, st_dt = 9007199254740994, st_cfl = 1,
           st_sdt = 1/4,
           st_fields = [9007199254740994, 9007199254740994, 9007199254740994],
           st_log = [Info_init 1 9007199254740994 (3/2) (- 1)] \<rparr>
   \<and> st_istep (initial_state stepper_imports0 params1) + 1 = 1
   \<and> fadd (st_t (initial_state stepper_imports0 params1)) 9007199254740994 = 9007199254740996
   \<and> p_time (params0 (3/4) (- 1) exact_init) < p_tfinal (params0 (3/4) (- 1) exact_init)
   \<and> stepping_loop 3 stepper_imports0 (params0 (3/4) (- 1) exact_init)
        (initial_state stepper_imports0 (params0 (3/4) (- 1) exact_init))
      = Some (\<lparr> st_t = 1, st_istep = 2, st_dt = 1/2, st_cfl = 1, st_sdt = 1/4, st_fields = [1, 1, 1],
                st_log = [Info_init 1 (1/2) (3/4) (- 1)] \<rparr>, None)
   \<and> p_tfinal (params0 (3/4) (- 1) exact_init) \<le> 1
   \<and> (\<exists>t_prev. t_prev < p_tfinal (params0 (3/4) (- 1) exact_init) \<and> 1 = fadd t_prev (1/2))"
proof -
  let ?s1 = "\<lparr> st_t = 9007199254740996, st_istep = 1, st_dt = 9007199254740994, st_cfl = 1,
           st_sdt = 1/4,
           st_fields = [9007199254740994, 9007199254740994, 9007199254740994],
           st_log = [Info_init 1 9007199254740994 (3/2) (- 1)] \<rparr> :: real list stepper_state"
  let ?sf = "\<lparr> st_t = 1, st_istep = 2, st_dt = 1/2, st_cfl = 1, st_sdt = 1/4, st_fields = [1, 1, 1],
                st_log = [Info_init 1 (1/2) (3/4) (- 1)] \<rparr> :: real list stepper_state"
  let ?p = "params0 (3/4) (- 1) exact_init"
  have a: "loop_body stepper_imports0 params1 (initial_state stepper_imports0 params1) = Inr ?s1"
    by (simp add: run0_defs params1_def rnd_big)
  have b: "p_time ?p < p_tfinal ?p"
    by (simp add: params0_def)
  have c: "stepping_loop 3 stepper_imports0 ?p (initial_state stepper_imports0 ?p) = Some (?sf, None)"
    by (simp add: run0_defs)
  note w1 = stepper_clock [where imp = stepper_imports0 and p = params1
      and s = "initial_state stepper_imports0 params1" and s' = ?s1, THEN conjunct1, rule_format, OF a]
  note w2 = stepper_clock [where imp = stepper_imports0 and p = ?p and fuel = 3 and sf = ?sf,
      THEN conjunct2, rule_format, OF conjI [OF b c]]
  from w1 have d: "st_istep (initial_state stepper_imports0 params1) + 1 = 1"
    and e: "fadd (st_t (initial_state stepper_imports0 params1)) 9007199254740994 = 9007199254740996"
    by simp_all
  from w2 have f: "p_tfinal ?p \<le> 1" and g: "\<exists>t_prev. t_prev < p_tfinal ?p \<and> 1 = fadd t_prev (1/2)"
    by auto
  from a b c d e f g show ?thesis by blast
qed

subsection \<open>The final report\<close>

text \<open>
  Claim C4 says that every run that leaves the stepping loop makes one final report,
  whatever the interval. In the code the final \<open>write_soln\<close> is under
  \<open>if nstepstatus > 0\<close>: the run below, with \<open>nstatus = -1\<close>, leaves the loop and
  completes, and emits only the initial message and the farewell line; no status message
  and no file record its terminal state.
\<close>

theorem no_final_report_without_status_interval:
  "euler_flow_stepper 3 stepper_imports0 (params0 (3/4) (- 1) exact_init)
   = Some ([Info_init 1 (1/2) (3/4) (- 1), Info ''Goodbye!''], Inr 0)"
  by (simp add: run0_defs)

text \<open>
  Claim C4, as the code has it. For every run that leaves the stepping loop, the events
  after those of the loop are: when \<open>nstatus > 0\<close>, the line \<open>Writing final dump.\<close> and the
  two events of one \<open>write_soln\<close> call at the terminal state, whether or not \<open>istep\<close> is a
  multiple of \<open>nstatus\<close> and whether or not the error then exceeds \<open>exittol\<close>; when
  \<open>nstatus \<le> 0\<close>, no report at all. The farewell line follows unless the error exceeds
  the tolerance.
\<close>

theorem final_report_gated_by_nstatus:
  assumes "p_time p < p_tfinal p"
    and "stepping_loop fuel imp p (initial_state imp p) = Some (s, None)"
  shows "map_option fst (euler_flow_stepper fuel imp p)
         = Some (st_log s
                 @ (if 0 < p_nstatus p
                    then [Info ''Writing final dump.''] @ snd (write_soln imp p s)
                    else [])
                 @ (if p_exittol p < Max (set (fst (write_soln imp p s)))
                    then [] else [Info ''Goodbye!'']))"
  using assms by (simp add: euler_flow_stepper_def after_loop_eq)

theorem final_report_gated_by_nstatus_witness:
  "p_time (params0 (3/4) 3 still_init) < p_tfinal (params0 (3/4) 3 still_init)
   \<and> stepping_loop 3 stepper_imports0 (params0 (3/4) 3 still_init)
        (initial_state stepper_imports0 (params0 (3/4) 3 still_init))
      = Some (\<lparr> st_t = 1, st_istep = 2, st_dt = 1/2, st_cfl = 1, st_sdt = 1/4, st_fields = [1, 1, 1],
                st_log = [Info_init 1 (1/2) (3/4) 3,
                          Info_status 0 0 [0, 0, 0] (1/2) 2 [0, 0, 0],
                          Write_vtk_file ''pulse'' 0 0
                            [(''fields'', [0, 0, 0]), (''dv'', [0, 0, 0]),
                             (''exact_soln'', [0, 0, 0]), (''residual'', [0, 0, 0])]] \<rparr>, None)
   \<and> (2::int) mod 3 \<noteq> 0
   \<and> map_option fst (euler_flow_stepper 3 stepper_imports0 (params0 (3/4) 3 still_init))
      = Some [Info_init 1 (1/2) (3/4) 3,
              Info_status 0 0 [0, 0, 0] (1/2) 2 [0, 0, 0],
              Write_vtk_file ''pulse'' 0 0
                [(''fields'', [0, 0, 0]), (''dv'', [0, 0, 0]),
                 (''exact_soln'', [0, 0, 0]), (''residual'', [0, 0, 0])],
              Info ''Writing final dump.'',
              Info_status 2 1 [2, 2, 2] (1/2) 1 [1, 1, 1],
              Write_vtk_file ''pulse'' 0 2
                [(''fields'', [1, 1, 1]), (''dv'', [2, 2, 2]),
                 (''exact_soln'', [0, 0, 0]), (''residual'', [1, 1, 1])]]"
proof -
  have a: "p_time (params0 (3/4) 3 still_init) < p_tfinal (params0 (3/4) 3 still_init)"
    by (simp add: params0_def)
  have b: "stepping_loop 3 stepper_imports0 (params0 (3/4) 3 still_init)
        (initial_state stepper_imports0 (params0 (3/4) 3 still_init))
      = Some (\<lparr> st_t = 1, st_istep = 2, st_dt = 1/2, st_cfl = 1, st_sdt = 1/4, st_fields = [1, 1, 1],
                st_log = [Info_init 1 (1/2) (3/4) 3,
                          Info_status 0 0 [0, 0, 0] (1/2) 2 [0, 0, 0],
                          Write_vtk_file ''pulse'' 0 0
                            [(''fields'', [0, 0, 0]), (''dv'', [0, 0, 0]),
                             (''exact_soln'', [0, 0, 0]), (''residual'', [0, 0, 0])]] \<rparr>, None)"
    by (simp add: run0_defs)
  from a b final_report_gated_by_nstatus [OF a b] show ?thesis
    by (simp add: run0_defs)
qed

subsection \<open>What the caller gets\<close>

text \<open>
  Claim C5 says that \<open>euler_flow_stepper\<close> returns the triple of final step, final time
  and final state, and that on divergence it signals a mismatch that carries the last
  good step, time and state. The code returns one number: two runs that leave the loop
  at different steps, times and states both return 0, the greatest final error. On
  divergence it raises a \<open>ValueError\<close> that carries a fixed message only.
\<close>

theorem euler_flow_stepper_returns_no_triple:
  "map_option snd (euler_flow_stepper 3 stepper_imports0 (params0 (3/4) (- 1) exact_init))
     = Some (Inr 0)
   \<and> stepping_loop 3 stepper_imports0 (params0 (3/4) (- 1) exact_init)
        (initial_state stepper_imports0 (params0 (3/4) (- 1) exact_init))
      = Some (\<lparr> st_t = 1, st_istep = 2, st_dt = 1/2, st_cfl = 1, st_sdt = 1/4, st_fields = [1, 1, 1],
                st_log = [Info_init 1 (1/2) (3/4) (- 1)] \<rparr>, None)
   \<and> map_option snd (euler_flow_stepper 3 stepper_imports0 (params0 (1/2) (- 1) exact_init))
     = Some (Inr 0)
   \<and> stepping_loop 3 stepper_imports0 (params0 (1/2) (- 1) exact_init)
        (initial_state stepper_imports0 (params0 (1/2) (- 1) exact_init))
      = Some (\<lparr> st_t = 1/2, st_istep = 1, st_dt = 1/2, st_cfl = 2, st_sdt = 1/2,
                st_fields = [1/2, 1/2, 1/2], st_log = [Info_init 1 (1/2) (1/2) (- 1)] \<rparr>, None)
   \<and> map_option snd (euler_flow_stepper 3 stepper_imports0 (params0 (3/4) (- 1) still_init))
     = Some (Inl (ValueError ''Solution failed to follow expected result.''))"
  by (simp add: run0_defs)

text \<open>
  Claim C5, as the code has it. When \<open>t_final \<le> t\<close> at entry, \<open>euler_flow_stepper\<close>
  returns \<open>0.0\<close> at once. Otherwise, for a run that leaves the stepping loop: when the
  greatest per-field error at the final time is within \<open>exittol\<close>, it returns that error
  (a number, not a triple); when the error exceeds \<open>exittol\<close>, it raises
  \<open>ValueError("Solution failed to follow expected result.")\<close>, which carries no step, time
  or state.
\<close>

theorem euler_flow_stepper_outcome:
  "(p_tfinal p \<le> p_time p \<longrightarrow> euler_flow_stepper fuel imp p = Some ([], Inr 0))
   \<and> (p_time p < p_tfinal p \<and> stepping_loop fuel imp p (initial_state imp p) = Some (s, None)
      \<longrightarrow> map_option snd (euler_flow_stepper fuel imp p)
          = Some (if p_exittol p < Max (set (fst (write_soln imp p s)))
                  then Inl (ValueError ''Solution failed to follow expected result.'')
                  else Inr (Max (set (fst (write_soln imp p s))))))"
  by (simp add: euler_flow_stepper_def after_loop_eq)

theorem euler_flow_stepper_outcome_witness:
  "euler_flow_stepper 3 stepper_imports0 (params0 0 3 exact_init) = Some ([], Inr 0)
   \<and> map_option snd (euler_flow_stepper 3 stepper_imports0 (params0 (3/4) 3 exact_init))
     = Some (Inr 0)
   \<and> map_option snd (euler_flow_stepper 3 stepper_imports0 (params0 (3/4) 3 still_init))
     = Some (Inl (ValueError ''Solution failed to follow expected result.''))"
  using
    euler_flow_stepper_outcome [where p = "params0 0 3 exact_init" and imp = stepper_imports0
      and fuel = 3]
    euler_flow_stepper_outcome [where p = "params0 (3/4) 3 exact_init" and imp = stepper_imports0
      and fuel = 3
      and s = "\<lparr> st_t = 1, st_istep = 2, st_dt = 1/2, st_cfl = 1, st_sdt = 1/4, st_fields = [1, 1, 1],
                st_log = [Info_init 1 (1/2) (3/4) 3,
                          Info_status 0 0 [0, 0, 0] (1/2) 2 [0, 0, 0],
                          Write_vtk_file ''pulse'' 0 0
                            [(''fields'', [0, 0, 0]), (''dv'', [0, 0, 0]),
                             (''exact_soln'', [0, 0, 0]), (''residual'', [0, 0, 0])]] \<rparr>"]
    euler_flow_stepper_outcome [where p = "params0 (3/4) 3 still_init" and imp = stepper_imports0
      and fuel = 3
      and s = "\<lparr> st_t = 1, st_istep = 2, st_dt = 1/2, st_cfl = 1, st_sdt = 1/4, st_fields = [1, 1, 1],
                st_log = [Info_init 1 (1/2) (3/4) 3,
                          Info_status 0 0 [0, 0, 0] (1/2) 2 [0, 0, 0],
                          Write_vtk_file ''pulse'' 0 0
                            [(''fields'', [0, 0, 0]), (''dv'', [0, 0, 0]),
                             (''exact_soln'', [0, 0, 0]), (''residual'', [0, 0, 0])]] \<rparr>"]
  by (simp add: run0_defs)

end
